theory Spec2Isabelle
  imports Complex_Main
begin

section \<open>JavaScript objects with string keys\<close>

text \<open>
  The registry (\<^verbatim>\<open>NETWORKS\<close>), the counter set (\<^verbatim>\<open>eventCounts\<close>) and the
  classification table (\<^verbatim>\<open>topic0ToName\<close>) are plain JavaScript objects used as
  dictionaries. An object is modelled by the list of its own properties, every key once.
  For the registry, whose keys the code enumerates and whose lookups the caller chooses,
  the list is in the order of \<^verbatim>\<open>Object.keys\<close> and a lookup also finds what a plain
  object inherits from \<^verbatim>\<open>Object.prototype\<close>. The two objects of the scanner are
  never enumerated by the modelled code; they are kept in insertion order and read by own
  property only.
\<close>

type_synonym 'v object = "(string \<times> 'v) list"

text \<open>\<^verbatim>\<open>obj[k]\<close> as far as own properties go: the value, or nothing.\<close>

definition get_prop :: "'v object \<Rightarrow> string \<Rightarrow> 'v option" where
  "get_prop obj k = map_of obj k"

text \<open>\<^verbatim>\<open>obj[k] = v\<close>: overwrite in place, or append a new property.\<close>

fun set_prop :: "string \<Rightarrow> 'v \<Rightarrow> 'v object \<Rightarrow> 'v object" where
  "set_prop k v [] = [(k, v)]"
| "set_prop k v (p # ps) = (if fst p = k then (k, v) # ps else p # set_prop k v ps)"

text \<open>\<^verbatim>\<open>Object.keys(obj)\<close> of an object whose list is in enumeration order.\<close>

definition Object_keys :: "'v object \<Rightarrow> string list" where
  "Object_keys obj = map fst obj"

subsection \<open>Enumeration order\<close>

text \<open>
  A plain object enumerates its array-index keys first, in ascending order, and its other
  keys after them in insertion order. A key is an array index when it is the decimal
  numeral, without leading zeros, of a number up to \<open>2^32 - 2\<close>.
\<close>

definition is_digit :: "char \<Rightarrow> bool" where
  "is_digit c = (c \<in> set ''0123456789'')"

definition digit_value :: "char \<Rightarrow> nat" where
  "digit_value c = of_char c - 48"

definition numeral_value :: "string \<Rightarrow> nat" where
  "numeral_value k = foldl (\<lambda>a c. 10 * a + digit_value c) 0 k"

definition array_index :: "string \<Rightarrow> nat option" where
  "array_index k =
     (if k \<noteq> [] \<and> list_all is_digit k \<and> (k = ''0'' \<or> take 1 k \<noteq> ''0'') \<and>
         numeral_value k \<le> 4294967294
      then Some (numeral_value k) else None)"

text \<open>A new array-index key goes before the first key that is not a smaller index.\<close>

fun insert_index :: "nat \<Rightarrow> string \<Rightarrow> 'v \<Rightarrow> 'v object \<Rightarrow> 'v object" where
  "insert_index i k v [] = [(k, v)]"
| "insert_index i k v (p # ps) =
     (case array_index (fst p) of
        Some j \<Rightarrow> if j < i then p # insert_index i k v ps else (k, v) # p # ps
      | None \<Rightarrow> (k, v) # p # ps)"

text \<open>\<^verbatim>\<open>obj[k] = v\<close> on an object that is enumerated afterwards.\<close>

definition assign :: "string \<Rightarrow> 'v \<Rightarrow> 'v object \<Rightarrow> 'v object" where
  "assign k v obj =
     (if k \<in> set (Object_keys obj) then set_prop k v obj
      else case array_index k of
             Some i \<Rightarrow> insert_index i k v obj
           | None \<Rightarrow> obj @ [(k, v)])"

text \<open>The decimal numeral of an index, as the key of a string's or an array's element.\<close>

definition digit_char :: "nat \<Rightarrow> char" where
  "digit_char d = char_of (48 + d)"

function decimal :: "nat \<Rightarrow> string" where
  "decimal n = (if n < 10 then [digit_char n] else decimal (n div 10) @ [digit_char (n mod 10)])"
  by pat_completeness auto
termination
  by (relation "measure id") auto

declare decimal.simps [simp del]

definition indexed :: "'v list \<Rightarrow> 'v object" where
  "indexed xs = zip (map decimal [0..<length xs]) xs"

subsection \<open>JSON values\<close>

text \<open>
  What \<^verbatim>\<open>JSON.parse\<close> yields. A number is the parsed double, a rational; an object
  is the list of its properties in enumeration order; a string is a list of 8-bit
  characters, one per code unit, so text beyond that range is outside the model.
\<close>

datatype json =
    JNull
  | JBool bool
  | JNum rat
  | JStr string
  | JArr "json list"
  | JObj "(string \<times> json) list"

text \<open>The truthiness that \<^verbatim>\<open>!v\<close> tests.\<close>

fun truthy :: "json \<Rightarrow> bool" where
  "truthy JNull = False"
| "truthy (JBool b) = b"
| "truthy (JNum q) = (q \<noteq> 0)"
| "truthy (JStr s) = (s \<noteq> [])"
| "truthy (JArr xs) = True"
| "truthy (JObj ps) = True"

text \<open>
  The own enumerable properties of a value: those of an object, the elements of an array
  and the characters of a string under their indices, none for a number, a boolean or
  \<^verbatim>\<open>null\<close>. This is what the spread \<^verbatim>\<open>{ ...v }\<close> copies into a new plain object.
\<close>

fun spread :: "json \<Rightarrow> json object" where
  "spread JNull = []"
| "spread (JBool b) = []"
| "spread (JNum q) = []"
| "spread (JStr s) = indexed (map (\<lambda>c. JStr [c]) s)"
| "spread (JArr xs) = indexed xs"
| "spread (JObj ps) = ps"

section \<open>The network registry (src/lib/config.js)\<close>

definition DEFAULT_NETWORKS :: "json object" where
  "DEFAULT_NETWORKS =
     [(''eth'', JStr ''http://eth.hypersync.xyz''),
      (''arbitrum'', JStr ''http://arbitrum.hypersync.xyz''),
      (''optimism'', JStr ''http://optimism.hypersync.xyz''),
      (''base'', JStr ''http://base.hypersync.xyz''),
      (''polygon'', JStr ''http://polygon.hypersync.xyz'')]"

text \<open>
  Every \<^verbatim>\<open>throw\<close> of the module, and every library call of it that can throw, is a
  value of \<open>js_error\<close>; a function that can raise returns \<open>js_error + 'a\<close> with
  \<open>Inl\<close> for the exception.
\<close>

datatype js_error =
    NetworkNotSupported string "string list"
  | ApiStatus nat
  | FetchFailed
  | BodyNotJson
  | ReadFailed
  | JsonSyntaxError
  | WriteFailed
  | TypeError

text \<open>\<^verbatim>\<open>Object.keys(v)\<close> of a parsed value: a \<^verbatim>\<open>TypeError\<close> for \<^verbatim>\<open>null\<close>.\<close>

definition keys_of_value :: "json \<Rightarrow> js_error + string list" where
  "keys_of_value v = (if v = JNull then Inl TypeError else Inr (Object_keys (spread v)))"

text \<open>
  The cache file \<^verbatim>\<open>.networks-cache.json\<close> as the module can find it: absent; present
  but unreadable; present with text that \<^verbatim>\<open>JSON.parse\<close> rejects; or present with text
  that parses to a JSON value, whatever it is. \<^verbatim>\<open>saveNetworksToCache\<close> writes an
  object of name/URL strings.
\<close>

datatype cache_file = Missing | Unreadable | Unparsable | Stored json

definition existsSync :: "cache_file \<Rightarrow> bool" where
  "existsSync f = (f \<noteq> Missing)"

text \<open>\<^verbatim>\<open>JSON.parse(fs.readFileSync(CACHE_FILE, "utf8"))\<close>\<close>

fun read_and_parse :: "cache_file \<Rightarrow> js_error + json" where
  "read_and_parse Missing = Inl ReadFailed"
| "read_and_parse Unreadable = Inl ReadFailed"
| "read_and_parse Unparsable = Inl JsonSyntaxError"
| "read_and_parse (Stored networks) = Inr networks"

text \<open>
  \<^verbatim>\<open>loadNetworksFromCache\<close>: the \<^verbatim>\<open>try\<close> block returns the parsed value when the
  file exists; the \<^verbatim>\<open>catch\<close> block only warns; after both, the function returns
  \<^verbatim>\<open>DEFAULT_NETWORKS\<close>. The result keeps the sum type so that "does not raise" is a
  statement about the value.
\<close>

definition loadNetworksFromCache :: "cache_file \<Rightarrow> js_error + json" where
  "loadNetworksFromCache f =
     (if existsSync f then
        (case read_and_parse f of
           Inr networks \<Rightarrow> Inr networks
         | Inl error \<Rightarrow> Inr (JObj DEFAULT_NETWORKS))
      else Inr (JObj DEFAULT_NETWORKS))"

text \<open>
  \<^verbatim>\<open>saveNetworksToCache\<close>: \<^verbatim>\<open>fs.writeFileSync\<close> either replaces the file's content
  with the JSON text of the object or throws (\<open>writable = False\<close>), which the
  \<^verbatim>\<open>catch\<close> block turns into a warning; the file is then taken to be left as it was.
\<close>

definition writeFileSync :: "bool \<Rightarrow> json object \<Rightarrow> cache_file \<Rightarrow> js_error + cache_file" where
  "writeFileSync writable networks f =
     (if writable then Inr (Stored (JObj networks)) else Inl WriteFailed)"

definition saveNetworksToCache :: "bool \<Rightarrow> json object \<Rightarrow> cache_file \<Rightarrow> cache_file" where
  "saveNetworksToCache writable networks f =
     (case writeFileSync writable networks f of Inr f' \<Rightarrow> f' | Inl error \<Rightarrow> f)"

text \<open>
  The module's state: the exported, reassignable \<^verbatim>\<open>NETWORKS\<close> and the cache file.
\<close>

record registry =
  NETWORKS :: "json object"
  CACHE_FILE :: cache_file

text \<open>
  What the directory service answers to one \<^verbatim>\<open>fetch(NETWORKS_API_URL)\<close>: the request
  fails; the status is not ok; the body is not JSON, not an array, or has an entry whose
  fields cannot be read (\<open>BadBody\<close>: each of these throws inside the \<^verbatim>\<open>try\<close> block
  before \<^verbatim>\<open>NETWORKS\<close> is assigned); or it is a list of records, each with the two
  fields the code reads, as the strings they are used as.
\<close>

record network_record =
  name :: string
  ecosystem :: string

datatype api_response =
    NoConnection
  | HttpStatus nat
  | BadBody
  | Records "network_record list"

text \<open>The body of the \<^verbatim>\<open>try\<close> block up to \<^verbatim>\<open>response.json()\<close>.\<close>

fun fetch_json :: "api_response \<Rightarrow> js_error + network_record list" where
  "fetch_json NoConnection = Inl FetchFailed"
| "fetch_json (HttpStatus status) = Inl (ApiStatus status)"
| "fetch_json BadBody = Inl BodyNotJson"
| "fetch_json (Records networks) = Inr networks"

text \<open>
  The callback of \<^verbatim>\<open>networks.forEach\<close>: skip non-EVM records, store the URL. An
  assignment to the key \<^verbatim>\<open>__proto__\<close> reaches the setter of \<^verbatim>\<open>Object.prototype\<close>,
  which ignores a string: no property is created.
\<close>

definition add_network :: "json object \<Rightarrow> network_record \<Rightarrow> json object" where
  "add_network result network =
     (if ecosystem network \<noteq> ''evm'' then result
      else if name network = ''__proto__'' then result
      else assign (name network) (JStr (''http://'' @ name network @ ''.hypersync.xyz'')) result)"

definition process_response :: "network_record list \<Rightarrow> json object" where
  "process_response networks = foldl add_network [] networks"

text \<open>
  \<^verbatim>\<open>fetchNetworks(forceRefresh)\<close>. The first \<^verbatim>\<open>loadNetworksFromCache()\<close> and the
  \<^verbatim>\<open>Object.keys\<close> of its result stand outside the \<^verbatim>\<open>try\<close> block, so an exception
  there rejects the promise; everything after is caught. The function returns the
  snapshot and leaves the new module state.
\<close>

definition live_discovery :: "api_response \<Rightarrow> bool \<Rightarrow> registry \<Rightarrow> js_error + (json \<times> registry)" where
  "live_discovery api writable st =
     (case fetch_json api of
        Inr networks \<Rightarrow>
          (let result = process_response networks
           in Inr (JObj result,
                \<lparr>NETWORKS = result,
                 CACHE_FILE = saveNetworksToCache writable result (CACHE_FILE st)\<rparr>))
      | Inl error \<Rightarrow>
          (case loadNetworksFromCache (CACHE_FILE st) of
             Inr cachedNetworks \<Rightarrow> Inr (cachedNetworks, st\<lparr>NETWORKS := spread cachedNetworks\<rparr>)
           | Inl e \<Rightarrow> Inl e))"

definition fetchNetworks :: "bool \<Rightarrow> api_response \<Rightarrow> bool \<Rightarrow> registry \<Rightarrow> js_error + (json \<times> registry)" where
  "fetchNetworks forceRefresh api writable st =
     (if \<not> forceRefresh then
        (case loadNetworksFromCache (CACHE_FILE st) of
           Inl e \<Rightarrow> Inl e
         | Inr cachedNetworks \<Rightarrow>
             (case keys_of_value cachedNetworks of
                Inl e \<Rightarrow> Inl e
              | Inr keys \<Rightarrow>
                  if length keys > length (Object_keys DEFAULT_NETWORKS)
                  then Inr (cachedNetworks, st\<lparr>NETWORKS := spread cachedNetworks\<rparr>)
                  else live_discovery api writable st))
      else live_discovery api writable st)"

text \<open>
  The statements the module runs when it is loaded: \<^verbatim>\<open>NETWORKS\<close> starts as a copy of
  the defaults and is replaced by a copy of the cache's content when that has at least one
  key. The statements stand in a \<^verbatim>\<open>try\<close> block, so the \<^verbatim>\<open>TypeError\<close> of a
  \<^verbatim>\<open>null\<close> cache only warns.
\<close>

definition module_load :: "cache_file \<Rightarrow> registry" where
  "module_load f =
     (case loadNetworksFromCache f of
        Inr cachedNetworks \<Rightarrow>
          (case keys_of_value cachedNetworks of
             Inr keys \<Rightarrow>
               if length keys > 0
               then \<lparr>NETWORKS = spread cachedNetworks, CACHE_FILE = f\<rparr>
               else \<lparr>NETWORKS = DEFAULT_NETWORKS, CACHE_FILE = f\<rparr>
           | Inl error \<Rightarrow> \<lparr>NETWORKS = DEFAULT_NETWORKS, CACHE_FILE = f\<rparr>)
      | Inl error \<Rightarrow> \<lparr>NETWORKS = DEFAULT_NETWORKS, CACHE_FILE = f\<rparr>)"

text \<open>
  What \<^verbatim>\<open>NETWORKS[network]\<close> finds when \<^verbatim>\<open>NETWORKS\<close> has no own property of that
  name: the members a plain object inherits from \<^verbatim>\<open>Object.prototype\<close>, all of them
  truthy (functions, and the prototype itself for \<^verbatim>\<open>__proto__\<close>).
\<close>

definition Object_prototype_names :: "string list" where
  "Object_prototype_names =
     [''constructor'', ''__defineGetter__'', ''__defineSetter__'', ''hasOwnProperty'',
      ''__lookupGetter__'', ''__lookupSetter__'', ''isPrototypeOf'', ''propertyIsEnumerable'',
      ''toString'', ''valueOf'', ''__proto__'', ''toLocaleString'']"

text \<open>What a lookup returns: a stored value, or an inherited member.\<close>

datatype js_value = Value json | ObjectPrototypeMember string

text \<open>
  \<^verbatim>\<open>getNetworkUrl(network)\<close>: \<^verbatim>\<open>!NETWORKS[network]\<close> holds for a name that is
  neither an own nor an inherited property and for an own property with a falsy value;
  otherwise \<^verbatim>\<open>NETWORKS[network]\<close> is returned, whatever it is.
\<close>

definition getNetworkUrl :: "string \<Rightarrow> registry \<Rightarrow> js_error + js_value" where
  "getNetworkUrl network st =
     (case get_prop (NETWORKS st) network of
        None \<Rightarrow>
          if network \<in> set Object_prototype_names then Inr (ObjectPrototypeMember network)
          else Inl (NetworkNotSupported network (take 10 (Object_keys (NETWORKS st))))
      | Some v \<Rightarrow>
          if truthy v then Inr (Value v)
          else Inl (NetworkNotSupported network (take 10 (Object_keys (NETWORKS st)))))"

text \<open>
  A run of refreshes in one process: each call has its own \<open>forceRefresh\<close> flag,
  directory answer and disk condition. A rejected call leaves the state as it was.
\<close>

fun refreshes :: "(bool \<times> api_response \<times> bool) list \<Rightarrow> registry \<Rightarrow> registry" where
  "refreshes [] st = st"
| "refreshes ((forceRefresh, api, writable) # calls) st =
     (case fetchNetworks forceRefresh api writable st of
        Inr (snapshot, st') \<Rightarrow> refreshes calls st'
      | Inl error \<Rightarrow> refreshes calls st)"

text \<open>Conditions under which a refresh has neither a usable cache nor a directory answer.\<close>

definition unusable :: "cache_file \<Rightarrow> bool" where
  "unusable f = (f = Missing \<or> f = Unreadable \<or> f = Unparsable)"

definition api_fails :: "api_response \<Rightarrow> bool" where
  "api_fails api = (case api of Records networks \<Rightarrow> False | _ \<Rightarrow> True)"

text \<open>The value a call of \<^verbatim>\<open>fetchNetworks\<close> resolves to, without the module state.\<close>

definition returned :: "js_error + (json \<times> registry) \<Rightarrow> js_error + json" where
  "returned r = (case r of Inl e \<Rightarrow> Inl e | Inr (snapshot, st) \<Rightarrow> Inr snapshot)"

section \<open>The scanner (createScanner, src/lib/index.js)\<close>

subsection \<open>What the remote session delivers\<close>

text \<open>
  A log record carries only the field the query selects. \<^verbatim>\<open>log.topics\<close> is falsy
  (\<open>TopicsAbsent\<close>), truthy but not an array (\<open>TopicsNotArray\<close>), or an array whose
  elements are \<^verbatim>\<open>null\<close>/\<^verbatim>\<open>undefined\<close> (\<open>None\<close>) or strings.
\<close>

datatype topics_field = TopicsAbsent | TopicsNotArray | Topics "string option list"

record log =
  topics :: topics_field

text \<open>
  One answer of \<^verbatim>\<open>stream.recv()\<close>: \<^verbatim>\<open>null\<close>, an exception, or a response object.
  \<open>nextBlock = None\<close> is a response without the field; \<open>logs = None\<close> is a response
  whose \<^verbatim>\<open>data.logs\<close> is absent or not an array; an entry \<open>None\<close> of the array is a
  \<^verbatim>\<open>null\<close> entry.
\<close>

record batch =
  nextBlock :: "nat option"
  logs :: "log option list option"

datatype recv = EndOfStream | RecvFailed string | Batch batch

text \<open>What \<^verbatim>\<open>decoder.decodeLogs([log])\<close> of the external decoder does with one record.\<close>

datatype decode_result = DecodeThrows string | NothingDecoded | DecodedEvent "string option"

subsection \<open>What the scanner shows\<close>

datatype log_line =
    InitializingScanner
  | StartingScan nat
  | DecoderInitialized
  | StartingStream
  | TipReached
  | MissingNextBlock
  | SampleEvent nat string
  | DecodeWarning string
  | BlockProgress nat nat rat
  | ScanComplete
  | TotalProcessingTime rat
  | AverageSpeed int
  | ErrorLine string

text \<open>
  The stats panel: empty, the running figures (current block, progress, total events,
  elapsed seconds, events per second) or the final summary (blocks scanned, total events,
  elapsed seconds, rounded average speed). Numbers are kept as computed; the
  \<^verbatim>\<open>toFixed\<close> formatting of the display is not modelled. JavaScript doubles are
  modelled by rationals.
\<close>

datatype stats_content =
    Blank
  | Live nat rat nat rat rat
  | Summary nat nat rat int

datatype scan_status = Streaming | Complete | Failed

text \<open>
  The mutable state of one scan. \<open>progressBar\<close> lists every value passed to
  \<^verbatim>\<open>updateProgressBar\<close>, oldest first, and \<open>logWindow\<close> every line passed to
  \<^verbatim>\<open>logWindow.log\<close>.
\<close>

record scan_state =
  eventCounts :: "nat object"
  fromBlock :: nat
  progressBar :: "rat list"
  stats :: stats_content
  lastLogUpdate :: nat
  lastDistributionUpdate :: nat
  logWindow :: "log_line list"
  status :: scan_status

text \<open>What is fixed once \<open>Initializing\<close> is over.\<close>

record scan_ctx =
  topic0ToName :: "string object"
  height :: nat
  startTime :: rat
  decodeLogs :: "log \<Rightarrow> decode_result"

subsection \<open>Setting up the counters\<close>

text \<open>\<^verbatim>\<open>sig.split("(")[0]\<close>\<close>

definition event_name :: "string \<Rightarrow> string" where
  "event_name sig = takeWhile (\<lambda>c. c \<noteq> CHR ''('') sig"

text \<open>
  \<^verbatim>\<open>keccak256(toHex(sig))\<close> of the viem library yields a string \<^verbatim>\<open>0x\<close> followed by
  the digest in hexadecimal. The digest function is a parameter of the model.
\<close>

definition topic0_of :: "(string \<Rightarrow> string) \<Rightarrow> string \<Rightarrow> string" where
  "topic0_of digest sig = ''0x'' @ digest sig"

text \<open>The callback of \<^verbatim>\<open>eventSignatures.forEach\<close>, on the pair of the two objects it fills.\<close>

definition register_signature ::
  "(string \<Rightarrow> string) \<Rightarrow> string object \<times> nat object \<Rightarrow> string \<Rightarrow> string object \<times> nat object" where
  "register_signature digest maps sig =
     (set_prop (topic0_of digest sig) (event_name sig) (fst maps),
      set_prop (event_name sig) 0 (snd maps))"

definition initial_maps :: "(string \<Rightarrow> string) \<Rightarrow> string list \<Rightarrow> string object \<times> nat object" where
  "initial_maps digest eventSignatures =
     foldl (register_signature digest) ([], [(''Total'', 0), (''Unknown'', 0)]) eventSignatures"

subsection \<open>Counting one record\<close>

text \<open>
  \<^verbatim>\<open>eventCounts[k] || 0\<close>. The properties \<^verbatim>\<open>Total\<close> and \<^verbatim>\<open>Unknown\<close> are
  created with the object and never deleted, so \<^verbatim>\<open>eventCounts.Total++\<close> and
  \<^verbatim>\<open>eventCounts.Unknown++\<close> read a number as well.
\<close>

definition counter :: "nat object \<Rightarrow> string \<Rightarrow> nat" where
  "counter counts k = (case get_prop counts k of Some n \<Rightarrow> n | None \<Rightarrow> 0)"

definition increment :: "string \<Rightarrow> nat object \<Rightarrow> nat object" where
  "increment k counts = set_prop k (counter counts k + 1) counts"

text \<open>
  The condition \<^verbatim>\<open>!log.topics || !Array.isArray(log.topics) || !log.topics[0]\<close>
  fails exactly when the first topic is a non-empty string, which is then
  \<^verbatim>\<open>topic0\<close>.
\<close>

fun first_topic :: "topics_field \<Rightarrow> string option" where
  "first_topic TopicsAbsent = None"
| "first_topic TopicsNotArray = None"
| "first_topic (Topics []) = None"
| "first_topic (Topics (None # ts)) = None"
| "first_topic (Topics (Some t # ts)) = (if t = [] then None else Some t)"

text \<open>\<^verbatim>\<open>topic0ToName[topic0] || "Unknown"\<close>\<close>

definition name_of_topic :: "string object \<Rightarrow> string \<Rightarrow> string" where
  "name_of_topic names topic0 =
     (case get_prop names topic0 of
        None \<Rightarrow> ''Unknown''
      | Some n \<Rightarrow> if n = [] then ''Unknown'' else n)"

text \<open>The callback of \<^verbatim>\<open>res.data.logs.forEach\<close>.\<close>

definition count_log :: "string object \<Rightarrow> nat object \<Rightarrow> log option \<Rightarrow> nat object" where
  "count_log names counts entry =
     (case entry of
        None \<Rightarrow> counts
      | Some lg \<Rightarrow>
          (let counts1 = increment ''Total'' counts in
           case first_topic (topics lg) of
             None \<Rightarrow> increment ''Unknown'' counts1
           | Some topic0 \<Rightarrow>
               (let eventName = name_of_topic names topic0 in
                if eventName = ''Unknown'' then increment ''Unknown'' counts1
                else increment eventName counts1)))"

subsection \<open>One iteration of the streaming loop\<close>

definition updateProgressBar :: "rat \<Rightarrow> scan_state \<Rightarrow> scan_state" where
  "updateProgressBar p s = s\<lparr>progressBar := progressBar s @ [p]\<rparr>"

definition log_line :: "log_line \<Rightarrow> scan_state \<Rightarrow> scan_state" where
  "log_line l s = s\<lparr>logWindow := logWindow s @ [l]\<rparr>"

text \<open>
  The occasional sample: when the running total is a multiple of 1000 and the first entry
  of the batch is a record, that record is decoded; whatever the decoder throws is caught
  and logged as a warning.
\<close>

definition sample_lines :: "scan_ctx \<Rightarrow> nat \<Rightarrow> log option list \<Rightarrow> nat object \<Rightarrow> log_line list" where
  "sample_lines c nb entries counts =
     (if counter counts ''Total'' mod 1000 = 0 then
        (case entries of
           Some lg # rest \<Rightarrow>
             (case decodeLogs c lg of
                DecodeThrows msg \<Rightarrow> [DecodeWarning msg]
              | NothingDecoded \<Rightarrow> []
              | DecodedEvent ev \<Rightarrow>
                  [SampleEvent nb (case ev of Some e \<Rightarrow> e | None \<Rightarrow> ''No event data'')])
         | _ \<Rightarrow> [])
      else [])"

text \<open>
  The block guarded by \<^verbatim>\<open>res.data && res.data.logs && Array.isArray(res.data.logs) &&
  res.data.logs.length > 0\<close>.
\<close>

definition process_logs :: "scan_ctx \<Rightarrow> nat \<Rightarrow> log option list option \<Rightarrow> scan_state \<Rightarrow> scan_state" where
  "process_logs c nb data s =
     (case data of
        None \<Rightarrow> s
      | Some entries \<Rightarrow>
          if length entries > 0 then
            (let counts = foldl (count_log (topic0ToName c)) (eventCounts s) entries
             in s\<lparr>eventCounts := counts,
                  logWindow := logWindow s @ sample_lines c nb entries counts\<rparr>)
          else s)"

text \<open>\<^verbatim>\<open>Math.max((currentTime - startTime) / 1000, 0.1)\<close>, times in milliseconds.\<close>

definition seconds :: "scan_ctx \<Rightarrow> rat \<Rightarrow> rat" where
  "seconds c currentTime = max ((currentTime - startTime c) / 1000) (1 / 10)"

text \<open>
  \<^verbatim>\<open>Math.min(res.nextBlock / height, 1)\<close>, computed only for a non-zero
  \<^verbatim>\<open>nextBlock\<close>: when \<^verbatim>\<open>height\<close> is 0 the quotient is \<^verbatim>\<open>Infinity\<close> and the
  minimum is 1.
\<close>

definition progress_fraction :: "nat \<Rightarrow> nat \<Rightarrow> rat" where
  "progress_fraction nb h = (if h = 0 then 1 else min (of_nat nb / of_nat h) 1)"

text \<open>The rest of the loop body, for a response whose \<^verbatim>\<open>nextBlock\<close> is truthy.\<close>

definition accept_batch :: "scan_ctx \<Rightarrow> nat \<Rightarrow> log option list option \<Rightarrow> rat \<Rightarrow> scan_state \<Rightarrow> scan_state" where
  "accept_batch c nb data currentTime s =
     (let s1 = process_logs c nb data s;
          s2 = s1\<lparr>fromBlock := nb\<rparr>;
          secs = seconds c currentTime;
          total = counter (eventCounts s2) ''Total'';
          eventsPerSecond = of_nat total / secs;
          progress = progress_fraction nb (height c);
          s3 = updateProgressBar progress s2;
          s4 = s3\<lparr>stats := Live nb progress total secs eventsPerSecond\<rparr>;
          s5 = (if int nb - int (lastDistributionUpdate s4) \<ge> 10000
                then s4\<lparr>lastDistributionUpdate := nb\<rparr> else s4);
          s6 = (if int nb - int (lastLogUpdate s5) \<ge> 50000
                then (log_line (BlockProgress nb total eventsPerSecond) s5)\<lparr>lastLogUpdate := nb\<rparr>
                else s5)
      in s6)"

text \<open>
  The loop body for a response object. \<^verbatim>\<open>!res.nextBlock\<close> holds for a missing field
  and for the number 0; the body then logs the warning and \<^verbatim>\<open>continue\<close>s.
\<close>

definition process_batch :: "scan_ctx \<Rightarrow> batch \<Rightarrow> rat \<Rightarrow> scan_state \<Rightarrow> scan_state" where
  "process_batch c res currentTime s =
     (case nextBlock res of
        None \<Rightarrow> log_line MissingNextBlock s
      | Some nb \<Rightarrow>
          if nb = 0 then log_line MissingNextBlock s
          else accept_batch c nb (logs res) currentTime s)"

subsection \<open>The loop and what follows it\<close>

text \<open>
  \<^verbatim>\<open>Math.round\<close>, on the exact quotient. The code rounds the double quotient, which
  next to a tie can fall on the other side of it.
\<close>

definition js_round :: "rat \<Rightarrow> int" where
  "js_round x = \<lfloor>x + 1 / 2\<rfloor>"

text \<open>The final summary, reached by \<^verbatim>\<open>break\<close>.\<close>

definition final_summary :: "scan_ctx \<Rightarrow> rat \<Rightarrow> scan_state \<Rightarrow> scan_state" where
  "final_summary c currentTime s =
     (let totalTime = seconds c currentTime;
          total = counter (eventCounts s) ''Total'';
          average = js_round (of_nat total / totalTime)
      in s\<lparr>stats := Summary (height c) total totalTime average,
           logWindow := logWindow s @ [ScanComplete, TotalProcessingTime totalTime, AverageSpeed average],
           status := Complete\<rparr>)"

text \<open>The outer \<^verbatim>\<open>catch\<close>: log the error, then \<^verbatim>\<open>process.exit(1)\<close>.\<close>

definition fail :: "string \<Rightarrow> scan_state \<Rightarrow> scan_state" where
  "fail msg s = (log_line (ErrorLine msg) s)\<lparr>status := Failed\<rparr>"

text \<open>
  \<^verbatim>\<open>while (true)\<close> over the answers of \<^verbatim>\<open>stream.recv()\<close>, each paired with the
  clock reading (\<^verbatim>\<open>performance.now()\<close>) taken while it is handled. The list is what
  the session has delivered so far: when it is used up the scan is still \<open>Streaming\<close>,
  waiting for the next answer. \<^verbatim>\<open>null\<close> leaves the loop; an exception is caught by
  the enclosing \<^verbatim>\<open>catch\<close>, which logs it and exits.
\<close>

fun streaming :: "scan_ctx \<Rightarrow> (recv \<times> rat) list \<Rightarrow> scan_state \<Rightarrow> scan_state" where
  "streaming c [] s = s"
| "streaming c ((EndOfStream, t) # rest) s =
     final_summary c t (updateProgressBar 1 (log_line TipReached s))"
| "streaming c ((RecvFailed msg, t) # rest) s = fail msg s"
| "streaming c ((Batch res, t) # rest) s = streaming c rest (process_batch c res t s)"

text \<open>
  \<open>Initializing\<close> ends in one of four ways: \<^verbatim>\<open>client.getHeight()\<close> throws,
  \<^verbatim>\<open>Decoder.fromSignatures\<close> throws, \<^verbatim>\<open>client.stream\<close> throws, or the session
  is open at the observed height.
\<close>

datatype init_outcome =
    HeightFailed string
  | DecoderFailed nat string
  | StreamFailed nat string
  | Ready nat

definition scanner_ctx :: "(string \<Rightarrow> string) \<Rightarrow> string list \<Rightarrow> (log \<Rightarrow> decode_result) \<Rightarrow> rat \<Rightarrow> nat \<Rightarrow> scan_ctx" where
  "scanner_ctx digest eventSignatures decoder start h =
     \<lparr>topic0ToName = fst (initial_maps digest eventSignatures),
      height = h, startTime = start, decodeLogs = decoder\<rparr>"

definition initial_state :: "(string \<Rightarrow> string) \<Rightarrow> string list \<Rightarrow> scan_state" where
  "initial_state digest eventSignatures =
     \<lparr>eventCounts = snd (initial_maps digest eventSignatures),
      fromBlock = 0, progressBar = [], stats = Blank,
      lastLogUpdate = 0, lastDistributionUpdate = 0,
      logWindow = [InitializingScanner], status = Streaming\<rparr>"

text \<open>
  \<^verbatim>\<open>createScanner\<close>: the counters and the classification table are built from the
  signatures, the progress bar is set to 0 once the session is open, and the loop runs on
  the answers of the session. The content of the distribution panel is not modelled.
\<close>

definition createScanner ::
  "(string \<Rightarrow> string) \<Rightarrow> string list \<Rightarrow> (log \<Rightarrow> decode_result) \<Rightarrow> rat \<Rightarrow> init_outcome \<Rightarrow>
   (recv \<times> rat) list \<Rightarrow> scan_state" where
  "createScanner digest eventSignatures decoder start init answers =
     (let s0 = initial_state digest eventSignatures in
      case init of
        HeightFailed msg \<Rightarrow> fail msg s0
      | DecoderFailed h msg \<Rightarrow> fail msg (log_line (StartingScan h) s0)
      | StreamFailed h msg \<Rightarrow>
          fail msg (log_line StartingStream (log_line DecoderInitialized (log_line (StartingScan h) s0)))
      | Ready h \<Rightarrow>
          streaming (scanner_ctx digest eventSignatures decoder start h) answers
            (updateProgressBar 0
               (log_line StartingStream (log_line DecoderInitialized (log_line (StartingScan h) s0)))))"

subsection \<open>Notions the statements use\<close>

text \<open>The sum of all per-name counters, \<open>Unknown\<close> among them: every property but \<open>Total\<close>.\<close>

definition per_name_sum :: "nat object \<Rightarrow> nat" where
  "per_name_sum counts = sum_list (map snd (filter (\<lambda>p. fst p \<noteq> ''Total'') counts))"

text \<open>
  The cursors of the responses the loop accepts, in order, up to the answer that ends the
  loop.
\<close>

fun accepted_cursors :: "(recv \<times> rat) list \<Rightarrow> nat list" where
  "accepted_cursors [] = []"
| "accepted_cursors ((EndOfStream, t) # rest) = []"
| "accepted_cursors ((RecvFailed msg, t) # rest) = []"
| "accepted_cursors ((Batch res, t) # rest) =
     (case nextBlock res of
        None \<Rightarrow> accepted_cursors rest
      | Some nb \<Rightarrow> if nb = 0 then accepted_cursors rest else nb # accepted_cursors rest)"

text \<open>\<open>Total\<close> agrees with the sum of the per-name counters.\<close>

definition balanced :: "nat object \<Rightarrow> bool" where
  "balanced counts = (counter counts ''Total'' = per_name_sum counts)"

section \<open>Sample inputs of the worked instances\<close>

text \<open>A cache of six networks, one more than the defaults.\<close>

definition six_networks :: "json object" where
  "six_networks =
     [(''eth'', JStr ''http://eth.hypersync.xyz''), (''gnosis'', JStr ''http://gnosis.hypersync.xyz''),
      (''base'', JStr ''http://base.hypersync.xyz''), (''linea'', JStr ''http://linea.hypersync.xyz''),
      (''zora'', JStr ''http://zora.hypersync.xyz''), (''blast'', JStr ''http://blast.hypersync.xyz'')]"

text \<open>
  A stand-in for the digest (the signature itself) and a decoder that decodes nothing; a
  scan for one signature at chain height 100, started at clock reading 0, and its state
  when the loop is entered.
\<close>

definition sample_digest :: "string \<Rightarrow> string" where
  "sample_digest sig = sig"

definition sample_decoder :: "log \<Rightarrow> decode_result" where
  "sample_decoder lg = NothingDecoded"

definition sample_ctx :: scan_ctx where
  "sample_ctx =
     \<lparr>topic0ToName = [(''0xTransfer(address,address,uint256)'', ''Transfer'')],
      height = 100, startTime = 0, decodeLogs = sample_decoder\<rparr>"

definition sample_state :: scan_state where
  "sample_state =
     \<lparr>eventCounts = [(''Total'', 0), (''Unknown'', 0), (''Transfer'', 0)],
      fromBlock = 0, progressBar = [0], stats = Blank,
      lastLogUpdate = 0, lastDistributionUpdate = 0,
      logWindow = [InitializingScanner, StartingScan 100, DecoderInitialized, StartingStream],
      status = Streaming\<rparr>"

definition transfer_log :: log where
  "transfer_log = \<lparr>topics = Topics [Some ''0xTransfer(address,address,uint256)'']\<rparr>"

section \<open>Properties of the registry\<close>

lemma load_never_raises: "\<exists>networks. loadNetworksFromCache f = Inr networks"
  by (cases f) (simp_all add: loadNetworksFromCache_def existsSync_def)

lemma load_unusable: "unusable f \<Longrightarrow> loadNetworksFromCache f = Inr (JObj DEFAULT_NETWORKS)"
  by (auto simp: unusable_def loadNetworksFromCache_def existsSync_def)

lemma load_Stored: "loadNetworksFromCache (Stored cached) = Inr cached"
  by (simp add: loadNetworksFromCache_def existsSync_def)

lemma keys_of_object: "keys_of_value (JObj ps) = Inr (Object_keys ps)"
  by (simp add: keys_of_value_def)

lemma fetch_json_fails: "api_fails api \<Longrightarrow> \<exists>e. fetch_json api = Inl e"
  by (cases api) (simp_all add: api_fails_def)

lemma fetch_offline:
  assumes "unusable (CACHE_FILE st)" "api_fails api"
  shows "fetchNetworks forceRefresh api writable st =
         Inr (JObj DEFAULT_NETWORKS, st\<lparr>NETWORKS := DEFAULT_NETWORKS\<rparr>)"
proof -
  from assms(2) obtain e where e: "fetch_json api = Inl e"
    using fetch_json_fails by blast
  have ld: "live_discovery api writable st =
      Inr (JObj DEFAULT_NETWORKS, st\<lparr>NETWORKS := DEFAULT_NETWORKS\<rparr>)"
    by (simp add: live_discovery_def e load_unusable [OF assms(1)])
  show ?thesis
    by (simp add: fetchNetworks_def load_unusable [OF assms(1)] keys_of_object ld)
qed

lemma refreshes_offline:
  assumes "unusable (CACHE_FILE st)" "NETWORKS st = DEFAULT_NETWORKS"
    and "list_all (\<lambda>call. api_fails (fst (snd call))) calls"
  shows "refreshes calls st = st"
  using assms
proof (induction calls arbitrary: st)
  case Nil
  then show ?case by simp
next
  case (Cons call calls)
  obtain force api writable where call: "call = (force, api, writable)"
    by (cases call) auto
  from Cons.prems(3) call have af: "api_fails api" by simp
  have same: "st\<lparr>NETWORKS := DEFAULT_NETWORKS\<rparr> = st"
    using Cons.prems(2) by simp
  have "refreshes (call # calls) st = refreshes calls st"
    by (simp add: call fetch_offline [OF Cons.prems(1) af] same)
  also have "\<dots> = st"
    using Cons.IH [OF Cons.prems(1,2)] Cons.prems(3) by simp
  finally show ?case .
qed

lemma module_load_unusable:
  "unusable f \<Longrightarrow> module_load f = \<lparr>NETWORKS = DEFAULT_NETWORKS, CACHE_FILE = f\<rparr>"
  by (simp add: module_load_def load_unusable keys_of_object DEFAULT_NETWORKS_def Object_keys_def)

lemma getNetworkUrl_default:
  "network \<in> set (Object_keys DEFAULT_NETWORKS) \<Longrightarrow>
   getNetworkUrl network \<lparr>NETWORKS = DEFAULT_NETWORKS, CACHE_FILE = f\<rparr> =
     Inr (Value (JStr (''http://'' @ network @ ''.hypersync.xyz'')))"
  by (auto simp: getNetworkUrl_def DEFAULT_NETWORKS_def Object_keys_def get_prop_def)

text \<open>
  C1, as the code has it: for every name of the built-in default set, \<open>getNetworkUrl\<close>
  succeeds and returns the built-in URL when the module has been loaded without a usable
  cache file (missing, unreadable or unparsable) and every refresh since then, forced or
  not, found the directory service failing.
\<close>

theorem getNetworkUrl_defaults_offline:
  assumes "unusable f"
    and "list_all (\<lambda>call. api_fails (fst (snd call))) calls"
    and "network \<in> set (Object_keys DEFAULT_NETWORKS)"
  shows "getNetworkUrl network (refreshes calls (module_load f)) =
         Inr (Value (JStr (''http://'' @ network @ ''.hypersync.xyz'')))"
proof -
  have "refreshes calls (module_load f) = \<lparr>NETWORKS = DEFAULT_NETWORKS, CACHE_FILE = f\<rparr>"
    using refreshes_offline [of "module_load f" calls] assms(1,2)
    by (simp add: module_load_unusable)
  then show ?thesis
    using getNetworkUrl_default [OF assms(3)] by simp
qed

text \<open>
  An instance of C1's theorem: an unparsable cache file, a refresh without connection and
  a forced refresh answered with status 503; \<open>eth\<close> still resolves.
\<close>

theorem getNetworkUrl_defaults_offline_witness:
  "getNetworkUrl ''eth''
     (refreshes [(False, NoConnection, True), (True, HttpStatus 503, False)] (module_load Unparsable))
   = Inr (Value (JStr ''http://eth.hypersync.xyz''))"
  using getNetworkUrl_defaults_offline
    [of Unparsable "[(False, NoConnection, True), (True, HttpStatus 503, False)]" "''eth''"]
  by (simp add: unusable_def api_fails_def DEFAULT_NETWORKS_def Object_keys_def)

text \<open>What the directory answers used below are turned into.\<close>

lemma array_index_gnosis: "array_index ''gnosis'' = None"
  by (simp add: array_index_def is_digit_def)

lemma discovery_of_gnosis:
  "process_response [\<lparr>name = ''gnosis'', ecosystem = ''evm''\<rparr>, \<lparr>name = ''fuel-mainnet'', ecosystem = ''fuel''\<rparr>]
     = [(''gnosis'', JStr ''http://gnosis.hypersync.xyz'')]"
  by (simp add: process_response_def add_network_def assign_def Object_keys_def array_index_gnosis)

text \<open>
  C1 as stated fails: with no cache file, a forced refresh that the directory answers with
  one EVM network (\<open>gnosis\<close>) and one non-EVM network leaves \<open>gnosis\<close> as the whole
  snapshot, and \<open>getNetworkUrl\<close> of the default name \<open>eth\<close> raises.
\<close>

theorem getNetworkUrl_after_discovery_counterexample:
  "getNetworkUrl ''eth''
     (refreshes
        [(True, Records [\<lparr>name = ''gnosis'', ecosystem = ''evm''\<rparr>,
                         \<lparr>name = ''fuel-mainnet'', ecosystem = ''fuel''\<rparr>], True)]
        (module_load Missing))
   = Inl (NetworkNotSupported ''eth'' [''gnosis''])"
  by (simp add: fetchNetworks_def live_discovery_def discovery_of_gnosis
      getNetworkUrl_def get_prop_def Object_keys_def Object_prototype_names_def
      saveNetworksToCache_def writeFileSync_def Let_def)

text \<open>
  Corner cases of the registry: an empty cache object is not loaded at start; a name
  inherited from \<^verbatim>\<open>Object.prototype\<close> is returned, not rejected; a cache file that
  holds \<^verbatim>\<open>null\<close> makes an unforced refresh reject, is returned as it is by a failed
  forced refresh (which empties the snapshot), and only warns at start.
\<close>

lemma empty_cache_keeps_defaults_at_load:
  "module_load (Stored (JObj [])) = \<lparr>NETWORKS = DEFAULT_NETWORKS, CACHE_FILE = Stored (JObj [])\<rparr>"
  by (simp add: module_load_def load_Stored keys_of_object Object_keys_def)

lemma inherited_name_is_returned:
  "getNetworkUrl ''constructor'' \<lparr>NETWORKS = DEFAULT_NETWORKS, CACHE_FILE = f\<rparr> =
     Inr (ObjectPrototypeMember ''constructor'')"
  by (simp add: getNetworkUrl_def get_prop_def DEFAULT_NETWORKS_def Object_prototype_names_def)

lemma null_cache_rejects_unforced_refresh:
  "CACHE_FILE st = Stored JNull \<Longrightarrow> fetchNetworks False api writable st = Inl TypeError"
  by (simp add: fetchNetworks_def load_Stored keys_of_value_def)

lemma null_cache_after_failed_forced_refresh:
  "CACHE_FILE st = Stored JNull \<Longrightarrow> api_fails api \<Longrightarrow>
   fetchNetworks True api writable st = Inr (JNull, st\<lparr>NETWORKS := []\<rparr>)"
  using fetch_json_fails [of api]
  by (auto simp: fetchNetworks_def live_discovery_def load_Stored)

lemma null_cache_keeps_defaults_at_load:
  "module_load (Stored JNull) = \<lparr>NETWORKS = DEFAULT_NETWORKS, CACHE_FILE = Stored JNull\<rparr>"
  by (simp add: module_load_def load_Stored keys_of_value_def)

text \<open>
  C7, as the code has it: reading the cache when the file is missing, unreadable or holds
  unparsable JSON yields the built-in default set, and \<open>loadNetworksFromCache\<close> raises
  for no state of the file.
\<close>

theorem loadNetworksFromCache_defaults_when_unusable:
  "loadNetworksFromCache Missing = Inr (JObj DEFAULT_NETWORKS) \<and>
   loadNetworksFromCache Unreadable = Inr (JObj DEFAULT_NETWORKS) \<and>
   loadNetworksFromCache Unparsable = Inr (JObj DEFAULT_NETWORKS) \<and>
   (\<exists>networks. loadNetworksFromCache f = Inr networks)"
  using load_never_raises [of f] by (simp add: loadNetworksFromCache_def existsSync_def)

text \<open>
  C7 as stated fails: for a missing file and for an unparsable one the result is not the
  empty mapping.
\<close>

theorem loadNetworksFromCache_not_empty_counterexample:
  "loadNetworksFromCache Missing \<noteq> Inr (JObj []) \<and> loadNetworksFromCache Unparsable \<noteq> Inr (JObj [])"
  by (simp add: loadNetworksFromCache_def existsSync_def DEFAULT_NETWORKS_def)

lemma live_discovery_ignores_memory:
  "returned (live_discovery api writable (st\<lparr>NETWORKS := other\<rparr>)) = returned (live_discovery api writable st)"
  by (simp add: live_discovery_def returned_def Let_def split: sum.splits)

lemma fetchNetworks_ignores_memory:
  "returned (fetchNetworks forceRefresh api writable (st\<lparr>NETWORKS := other\<rparr>)) =
   returned (fetchNetworks forceRefresh api writable st)"
  using live_discovery_ignores_memory [where api = api and writable = writable and st = st and other = other]
  by (simp add: fetchNetworks_def returned_def split: sum.splits)

text \<open>
  C2, as the code has it: \<open>fetchNetworks\<close> never consults the in-memory snapshot.
  Without \<open>forceRefresh\<close>, and for a cache file that is missing, unreadable, unparsable
  or parses to a value other than \<^verbatim>\<open>null\<close>, it returns the first of: the parsed cache
  (a copy of which becomes the snapshot) when that has strictly more keys than the default
  set; otherwise the result of attempting live discovery. With \<open>forceRefresh\<close> it always
  attempts live discovery. The attempt returns the filtered directory answer, which
  becomes the snapshot and, when the write succeeds, the content of the cache file (a
  failed write leaves the file as it was); when the directory fails it returns what
  \<open>loadNetworksFromCache\<close> gives, the cache or the defaults. The last conjunct says
  that the value returned does not depend on \<open>NETWORKS\<close>.
\<close>

theorem fetchNetworks_order:
  "(CACHE_FILE st = Stored cached \<and> keys_of_value cached = Inr keys \<and>
      length keys > length (Object_keys DEFAULT_NETWORKS) \<longrightarrow>
      fetchNetworks False api writable st = Inr (cached, st\<lparr>NETWORKS := spread cached\<rparr>)) \<and>
   (unusable (CACHE_FILE st) \<or>
      (CACHE_FILE st = Stored cached \<and> keys_of_value cached = Inr keys \<and>
       length keys \<le> length (Object_keys DEFAULT_NETWORKS)) \<longrightarrow>
      fetchNetworks False api writable st = live_discovery api writable st) \<and>
   fetchNetworks True api writable st = live_discovery api writable st \<and>
   live_discovery (Records networks) True st =
     Inr (JObj (process_response networks),
          \<lparr>NETWORKS = process_response networks,
           CACHE_FILE = Stored (JObj (process_response networks))\<rparr>) \<and>
   live_discovery (Records networks) False st =
     Inr (JObj (process_response networks),
          \<lparr>NETWORKS = process_response networks, CACHE_FILE = CACHE_FILE st\<rparr>) \<and>
   (api_fails api \<longrightarrow>
      live_discovery api writable st =
        (case loadNetworksFromCache (CACHE_FILE st) of
           Inr cachedNetworks \<Rightarrow> Inr (cachedNetworks, st\<lparr>NETWORKS := spread cachedNetworks\<rparr>)
         | Inl e \<Rightarrow> Inl e)) \<and>
   returned (fetchNetworks forceRefresh api writable (st\<lparr>NETWORKS := other\<rparr>)) =
     returned (fetchNetworks forceRefresh api writable st)"
proof -
  have 1: "fetchNetworks False api writable st = Inr (cached, st\<lparr>NETWORKS := spread cached\<rparr>)"
    if "CACHE_FILE st = Stored cached" "keys_of_value cached = Inr keys"
       "length keys > length (Object_keys DEFAULT_NETWORKS)"
    using that by (simp add: fetchNetworks_def load_Stored)
  have 2: "fetchNetworks False api writable st = live_discovery api writable st"
    if "unusable (CACHE_FILE st) \<or>
      (CACHE_FILE st = Stored cached \<and> keys_of_value cached = Inr keys \<and>
       length keys \<le> length (Object_keys DEFAULT_NETWORKS))"
    using that by (auto simp: fetchNetworks_def load_Stored load_unusable keys_of_object)
  have 3: "fetchNetworks True api writable st = live_discovery api writable st"
    by (simp add: fetchNetworks_def)
  have 4: "live_discovery (Records networks) True st =
     Inr (JObj (process_response networks),
          \<lparr>NETWORKS = process_response networks,
           CACHE_FILE = Stored (JObj (process_response networks))\<rparr>)"
    by (simp add: live_discovery_def Let_def saveNetworksToCache_def writeFileSync_def)
  have 5: "live_discovery (Records networks) False st =
     Inr (JObj (process_response networks),
          \<lparr>NETWORKS = process_response networks, CACHE_FILE = CACHE_FILE st\<rparr>)"
    by (simp add: live_discovery_def Let_def saveNetworksToCache_def writeFileSync_def)
  have 6: "live_discovery api writable st =
        (case loadNetworksFromCache (CACHE_FILE st) of
           Inr cachedNetworks \<Rightarrow> Inr (cachedNetworks, st\<lparr>NETWORKS := spread cachedNetworks\<rparr>)
         | Inl e \<Rightarrow> Inl e)" if "api_fails api"
    using that by (cases api) (simp_all add: live_discovery_def api_fails_def)
  show ?thesis
    using 1 2 3 4 5 6
      fetchNetworks_ignores_memory [where forceRefresh = forceRefresh and api = api and writable = writable
        and st = st and other = other]
    by blast
qed

text \<open>
  Instances of C2's theorem: a stored cache of six networks is returned without any
  request; with no cache file, an unforced refresh goes to the directory and stores its
  answer; the same answer to a forced refresh on a disk that cannot be written becomes the
  snapshot and leaves the file missing; a forced refresh that gets status 500, over an
  unparsable cache file, returns the defaults.
\<close>

theorem fetchNetworks_order_witness:
  "fetchNetworks False NoConnection True \<lparr>NETWORKS = DEFAULT_NETWORKS, CACHE_FILE = Stored (JObj six_networks)\<rparr>
     = Inr (JObj six_networks, \<lparr>NETWORKS = six_networks, CACHE_FILE = Stored (JObj six_networks)\<rparr>) \<and>
   fetchNetworks False (Records [\<lparr>name = ''gnosis'', ecosystem = ''evm''\<rparr>, \<lparr>name = ''fuel-mainnet'', ecosystem = ''fuel''\<rparr>]) True
       \<lparr>NETWORKS = DEFAULT_NETWORKS, CACHE_FILE = Missing\<rparr>
     = Inr (JObj [(''gnosis'', JStr ''http://gnosis.hypersync.xyz'')],
            \<lparr>NETWORKS = [(''gnosis'', JStr ''http://gnosis.hypersync.xyz'')],
             CACHE_FILE = Stored (JObj [(''gnosis'', JStr ''http://gnosis.hypersync.xyz'')])\<rparr>) \<and>
   fetchNetworks True (Records [\<lparr>name = ''gnosis'', ecosystem = ''evm''\<rparr>, \<lparr>name = ''fuel-mainnet'', ecosystem = ''fuel''\<rparr>]) False
       \<lparr>NETWORKS = DEFAULT_NETWORKS, CACHE_FILE = Missing\<rparr>
     = Inr (JObj [(''gnosis'', JStr ''http://gnosis.hypersync.xyz'')],
            \<lparr>NETWORKS = [(''gnosis'', JStr ''http://gnosis.hypersync.xyz'')], CACHE_FILE = Missing\<rparr>) \<and>
   fetchNetworks True (HttpStatus 500) True \<lparr>NETWORKS = six_networks, CACHE_FILE = Unparsable\<rparr>
     = Inr (JObj DEFAULT_NETWORKS, \<lparr>NETWORKS = DEFAULT_NETWORKS, CACHE_FILE = Unparsable\<rparr>)"
  using fetchNetworks_order [where st = "\<lparr>NETWORKS = DEFAULT_NETWORKS, CACHE_FILE = Stored (JObj six_networks)\<rparr>"
       and cached = "JObj six_networks" and keys = "Object_keys six_networks"
       and api = NoConnection and writable = True]
    fetchNetworks_order [where st = "\<lparr>NETWORKS = DEFAULT_NETWORKS, CACHE_FILE = Missing\<rparr>"
       and api = "Records [\<lparr>name = ''gnosis'', ecosystem = ''evm''\<rparr>, \<lparr>name = ''fuel-mainnet'', ecosystem = ''fuel''\<rparr>]"
       and writable = True
       and networks = "[\<lparr>name = ''gnosis'', ecosystem = ''evm''\<rparr>, \<lparr>name = ''fuel-mainnet'', ecosystem = ''fuel''\<rparr>]"]
    fetchNetworks_order [where st = "\<lparr>NETWORKS = DEFAULT_NETWORKS, CACHE_FILE = Missing\<rparr>"
       and api = "Records [\<lparr>name = ''gnosis'', ecosystem = ''evm''\<rparr>, \<lparr>name = ''fuel-mainnet'', ecosystem = ''fuel''\<rparr>]"
       and writable = False
       and networks = "[\<lparr>name = ''gnosis'', ecosystem = ''evm''\<rparr>, \<lparr>name = ''fuel-mainnet'', ecosystem = ''fuel''\<rparr>]"]
    fetchNetworks_order [where st = "\<lparr>NETWORKS = six_networks, CACHE_FILE = Unparsable\<rparr>"
       and api = "HttpStatus 500" and writable = True]
  by (simp add: six_networks_def DEFAULT_NETWORKS_def Object_keys_def unusable_def api_fails_def
      discovery_of_gnosis keys_of_value_def loadNetworksFromCache_def existsSync_def)

lemma discovery_of_base:
  "process_response [\<lparr>name = ''base'', ecosystem = ''evm''\<rparr>] = [(''base'', JStr ''http://base.hypersync.xyz'')]"
  by (simp add: process_response_def add_network_def assign_def Object_keys_def array_index_def is_digit_def)

lemma discovery_of_gnosis_alone:
  "process_response [\<lparr>name = ''gnosis'', ecosystem = ''evm''\<rparr>] = [(''gnosis'', JStr ''http://gnosis.hypersync.xyz'')]"
  by (simp add: process_response_def add_network_def assign_def Object_keys_def array_index_gnosis)

text \<open>
  C2 as stated fails in its first case: with no cache file, an unforced refresh populates
  the in-memory snapshot with \<open>gnosis\<close> alone (and stores it); the next unforced refresh
  of the same process does not return that snapshot: it asks the directory again and
  returns its new answer.
\<close>

theorem fetchNetworks_skips_memory_counterexample:
  "NETWORKS (refreshes [(False, Records [\<lparr>name = ''gnosis'', ecosystem = ''evm''\<rparr>], True)] (module_load Missing))
     = [(''gnosis'', JStr ''http://gnosis.hypersync.xyz'')] \<and>
   returned (fetchNetworks False (Records [\<lparr>name = ''base'', ecosystem = ''evm''\<rparr>]) True
      (refreshes [(False, Records [\<lparr>name = ''gnosis'', ecosystem = ''evm''\<rparr>], True)] (module_load Missing)))
     = Inr (JObj [(''base'', JStr ''http://base.hypersync.xyz'')])"
  by (simp add: fetchNetworks_def live_discovery_def discovery_of_base discovery_of_gnosis_alone returned_def
      Object_keys_def module_load_def loadNetworksFromCache_def DEFAULT_NETWORKS_def keys_of_value_def
      existsSync_def saveNetworksToCache_def writeFileSync_def Let_def)

section \<open>Properties of the scanner\<close>

lemma get_set_prop: "get_prop (set_prop k v obj) k' = (if k' = k then Some v else get_prop obj k')"
  by (induction obj) (auto simp: get_prop_def)

lemma counter_increment:
  "counter (increment k counts) k' = (if k' = k then counter counts k + 1 else counter counts k')"
  by (simp add: counter_def increment_def get_set_prop)

lemma get_increment_other: "k' \<noteq> k \<Longrightarrow> get_prop (increment k counts) k' = get_prop counts k'"
  by (simp add: increment_def get_set_prop)

lemma first_topic_unusable:
  "topics lg = TopicsAbsent \<or> topics lg = TopicsNotArray \<or> topics lg = Topics [] \<or>
   topics lg = Topics (None # ts) \<or> topics lg = Topics (Some [] # ts) \<Longrightarrow>
   first_topic (topics lg) = None"
  by auto

lemma count_log_no_topic:
  "first_topic (topics lg) = None \<Longrightarrow>
   count_log names counts (Some lg) = increment ''Unknown'' (increment ''Total'' counts)"
  by (simp add: count_log_def)

text \<open>
  C8: counting a record whose \<open>topics\<close> is absent, not an array, empty, or begins with a
  falsy element (\<^verbatim>\<open>null\<close> or the empty string) adds exactly 1 to \<open>Unknown\<close>, exactly 1
  to \<open>Total\<close>, and leaves every other property of \<open>eventCounts\<close> as it was.
\<close>

theorem unusable_topics_count_as_Unknown:
  assumes "topics lg = TopicsAbsent \<or> topics lg = TopicsNotArray \<or> topics lg = Topics [] \<or>
           topics lg = Topics (None # ts) \<or> topics lg = Topics (Some [] # ts)"
  shows "counter (count_log names counts (Some lg)) ''Unknown'' = counter counts ''Unknown'' + 1 \<and>
         counter (count_log names counts (Some lg)) ''Total'' = counter counts ''Total'' + 1 \<and>
         (\<forall>k. k \<noteq> ''Unknown'' \<and> k \<noteq> ''Total'' \<longrightarrow>
              get_prop (count_log names counts (Some lg)) k = get_prop counts k)"
proof -
  have eq: "count_log names counts (Some lg) = increment ''Unknown'' (increment ''Total'' counts)"
    using count_log_no_topic [OF first_topic_unusable [OF assms]] .
  show ?thesis
    unfolding eq by (simp add: counter_increment get_increment_other)
qed

text \<open>
  An instance of C8's theorem: a record with an empty topics array, counted into
  \<open>{Total: 7, Unknown: 2, Transfer: 5}\<close>.
\<close>

theorem unusable_topics_count_as_Unknown_witness:
  "counter (count_log [(''0xddf2'', ''Transfer'')] [(''Total'', 7), (''Unknown'', 2), (''Transfer'', 5)]
      (Some \<lparr>topics = Topics []\<rparr>)) ''Unknown'' = 3 \<and>
   counter (count_log [(''0xddf2'', ''Transfer'')] [(''Total'', 7), (''Unknown'', 2), (''Transfer'', 5)]
      (Some \<lparr>topics = Topics []\<rparr>)) ''Total'' = 8 \<and>
   get_prop (count_log [(''0xddf2'', ''Transfer'')] [(''Total'', 7), (''Unknown'', 2), (''Transfer'', 5)]
      (Some \<lparr>topics = Topics []\<rparr>)) ''Transfer'' = Some 5"
  using unusable_topics_count_as_Unknown [of "\<lparr>topics = Topics []\<rparr>" "[]" "[(''0xddf2'', ''Transfer'')]"
      "[(''Total'', 7), (''Unknown'', 2), (''Transfer'', 5)]"]
  by (simp add: counter_def get_prop_def)

text \<open>
  C6: a response without \<open>nextBlock\<close> is discarded. The warning is logged, no record of
  it is counted, \<open>query.fromBlock\<close> stays, the status stays, and the loop goes on with
  the next answer.
\<close>

theorem missing_nextBlock_discards_batch:
  assumes "nextBlock res = None"
  shows "logWindow (process_batch c res t s) = logWindow s @ [MissingNextBlock] \<and>
         eventCounts (process_batch c res t s) = eventCounts s \<and>
         fromBlock (process_batch c res t s) = fromBlock s \<and>
         status (process_batch c res t s) = status s \<and>
         streaming c ((Batch res, t) # rest) s = streaming c rest (log_line MissingNextBlock s)"
  using assms by (simp add: process_batch_def log_line_def)

text \<open>
  An instance of C6's theorem: a response that carries one classifiable record but no
  \<open>nextBlock\<close>; the counters stay at 0, the cursor at 0, and only the warning is added.
\<close>

theorem missing_nextBlock_discards_batch_witness:
  "nextBlock \<lparr>nextBlock = None, logs = Some [Some transfer_log]\<rparr> = None \<and>
   eventCounts (process_batch sample_ctx \<lparr>nextBlock = None, logs = Some [Some transfer_log]\<rparr> 5 sample_state)
     = [(''Total'', 0), (''Unknown'', 0), (''Transfer'', 0)] \<and>
   fromBlock (process_batch sample_ctx \<lparr>nextBlock = None, logs = Some [Some transfer_log]\<rparr> 5 sample_state) = 0 \<and>
   logWindow (process_batch sample_ctx \<lparr>nextBlock = None, logs = Some [Some transfer_log]\<rparr> 5 sample_state)
     = [InitializingScanner, StartingScan 100, DecoderInitialized, StartingStream, MissingNextBlock]"
  using missing_nextBlock_discards_batch
    [of "\<lparr>nextBlock = None, logs = Some [Some transfer_log]\<rparr>" sample_ctx 5 sample_state "[]"]
  by (simp add: sample_state_def log_line_def)

text \<open>
  C10: a response whose \<open>nextBlock\<close> is 0 is handled exactly as the same response
  without the field. The missing-nextBlock warning is logged, no record is counted, the
  cursor stays, and the loop goes on.
\<close>

theorem zero_nextBlock_treated_as_missing:
  "process_batch c (res\<lparr>nextBlock := Some 0\<rparr>) t s = process_batch c (res\<lparr>nextBlock := None\<rparr>) t s \<and>
   logWindow (process_batch c (res\<lparr>nextBlock := Some 0\<rparr>) t s) = logWindow s @ [MissingNextBlock] \<and>
   eventCounts (process_batch c (res\<lparr>nextBlock := Some 0\<rparr>) t s) = eventCounts s \<and>
   fromBlock (process_batch c (res\<lparr>nextBlock := Some 0\<rparr>) t s) = fromBlock s \<and>
   streaming c ((Batch (res\<lparr>nextBlock := Some 0\<rparr>), t) # rest) s =
     streaming c rest (log_line MissingNextBlock s)"
  by (simp add: process_batch_def log_line_def)

subsection \<open>End of stream, throughput, counter balance, progress\<close>

lemma set_prop_zero: "list_all (\<lambda>p. snd p = 0) counts \<Longrightarrow> list_all (\<lambda>p. snd p = 0) (set_prop k 0 counts)"
  by (induction counts) auto

lemma initial_counts_zero_gen:
  "list_all (\<lambda>p. snd p = 0) (snd maps) \<Longrightarrow>
   list_all (\<lambda>p. snd p = 0) (snd (foldl (register_signature digest) maps sigs))"
  by (induction sigs arbitrary: maps) (simp_all add: register_signature_def set_prop_zero)

lemma initial_counts_zero: "list_all (\<lambda>p. snd p = 0) (snd (initial_maps digest sigs))"
  unfolding initial_maps_def by (rule initial_counts_zero_gen) simp

lemma end_of_stream_step:
  "progressBar (streaming c ((EndOfStream, t) # rest) s) = progressBar s @ [1] \<and>
   status (streaming c ((EndOfStream, t) # rest) s) = Complete \<and>
   eventCounts (streaming c ((EndOfStream, t) # rest) s) = eventCounts s"
  by (simp add: final_summary_def updateProgressBar_def log_line_def Let_def)

text \<open>
  C4: when \<^verbatim>\<open>stream.recv()\<close> yields \<^verbatim>\<open>null\<close>, the progress bar is set to exactly 1,
  the scan ends in \<open>Complete\<close>, and the counters are untouched. In particular, when
  the sentinel is the first answer of a scan at height 0, the scan completes with
  progress 1 and every counter at 0.
\<close>

theorem end_of_stream_completes:
  "last (progressBar (streaming c ((EndOfStream, t) # rest) s)) = 1 \<and>
   status (streaming c ((EndOfStream, t) # rest) s) = Complete \<and>
   eventCounts (streaming c ((EndOfStream, t) # rest) s) = eventCounts s \<and>
   last (progressBar (createScanner digest sigs decoder start (Ready 0) ((EndOfStream, t) # rest))) = 1 \<and>
   status (createScanner digest sigs decoder start (Ready 0) ((EndOfStream, t) # rest)) = Complete \<and>
   list_all (\<lambda>p. snd p = 0)
     (eventCounts (createScanner digest sigs decoder start (Ready 0) ((EndOfStream, t) # rest)))"
proof -
  have cs: "createScanner digest sigs decoder start (Ready 0) ((EndOfStream, t) # rest) =
        streaming (scanner_ctx digest sigs decoder start 0) ((EndOfStream, t) # rest)
          (updateProgressBar 0 (log_line StartingStream (log_line DecoderInitialized
             (log_line (StartingScan 0) (initial_state digest sigs)))))"
    by (simp add: createScanner_def Let_def)
  have ec: "eventCounts (updateProgressBar 0 (log_line StartingStream (log_line DecoderInitialized
             (log_line (StartingScan 0) (initial_state digest sigs))))) = snd (initial_maps digest sigs)"
    by (simp add: updateProgressBar_def log_line_def initial_state_def)
  show ?thesis
    unfolding cs using initial_counts_zero [of digest sigs]
    by (simp only: end_of_stream_step ec) simp
qed

text \<open>
  C9, as the code has it: on every response that is not discarded (its \<open>nextBlock\<close>
  is truthy) the stats panel shows the throughput recomputed as the current \<open>Total\<close>
  divided by the elapsed seconds since the start, where the elapsed time is
  \<open>max(elapsed, 0.1)\<close>: the divisor is at least 0.1 and never 0, and it is exactly
  0.1 at the very start. A response that is discarded for a missing or zero
  \<open>nextBlock\<close> leaves the panel as it was.
\<close>

theorem throughput_recomputed_unless_discarded:
  "stats (process_batch c res now s) =
     (case nextBlock res of
        None \<Rightarrow> stats s
      | Some nb \<Rightarrow>
          if nb = 0 then stats s
          else Live nb (progress_fraction nb (height c))
                 (counter (eventCounts (process_batch c res now s)) ''Total'')
                 (seconds c now)
                 (of_nat (counter (eventCounts (process_batch c res now s)) ''Total'') / seconds c now)) \<and>
   seconds c now = max ((now - startTime c) / 1000) (1 / 10) \<and>
   1 / 10 \<le> seconds c now \<and> seconds c now \<noteq> 0 \<and>
   seconds c (startTime c) = 1 / 10"
proof -
  have accepted: "stats (accept_batch c nb (logs res) now s) =
           Live nb (progress_fraction nb (height c))
             (counter (eventCounts (accept_batch c nb (logs res) now s)) ''Total'')
             (seconds c now)
             (of_nat (counter (eventCounts (accept_batch c nb (logs res) now s)) ''Total'') / seconds c now)"
    for nb
    by (simp add: accept_batch_def Let_def updateProgressBar_def log_line_def)
  have shown: "stats (process_batch c res now s) =
     (case nextBlock res of
        None \<Rightarrow> stats s
      | Some nb \<Rightarrow>
          if nb = 0 then stats s
          else Live nb (progress_fraction nb (height c))
                 (counter (eventCounts (process_batch c res now s)) ''Total'')
                 (seconds c now)
                 (of_nat (counter (eventCounts (process_batch c res now s)) ''Total'') / seconds c now))"
  proof (cases "nextBlock res")
    case None
    then show ?thesis by (simp add: process_batch_def log_line_def)
  next
    case (Some nb)
    show ?thesis
    proof (cases "nb = 0")
      case True
      then show ?thesis using Some by (simp add: process_batch_def log_line_def)
    next
      case False
      have "process_batch c res now s = accept_batch c nb (logs res) now s"
        using Some False by (simp add: process_batch_def)
      then show ?thesis using Some False accepted [of nb] by simp
    qed
  qed
  have floor: "1 / 10 \<le> seconds c now" by (simp add: seconds_def)
  have nonzero: "seconds c now \<noteq> 0"
  proof -
    have "(0::rat) < 1 / 10" by simp
    also have "\<dots> \<le> seconds c now" by (rule floor)
    finally show ?thesis by simp
  qed
  have start: "seconds c (startTime c) = 1 / 10" by (simp add: seconds_def)
  show ?thesis using shown floor nonzero start by (simp add: seconds_def)
qed

text \<open>
  Instances of C9's theorem: 50 ms after the start, a response with cursor 50 and two
  records; the elapsed time is floored to 0.1 s and the throughput shown is 2 / 0.1 = 20.
  The same response without cursor leaves the panel blank.
\<close>

theorem throughput_recomputed_unless_discarded_witness:
  "stats (process_batch sample_ctx
            \<lparr>nextBlock = Some 50, logs = Some [Some transfer_log, Some \<lparr>topics = Topics []\<rparr>]\<rparr> 50 sample_state)
     = Live 50 (1 / 2) 2 (1 / 10) 20 \<and>
   stats (process_batch sample_ctx
            \<lparr>nextBlock = None, logs = Some [Some transfer_log, Some \<lparr>topics = Topics []\<rparr>]\<rparr> 50 sample_state)
     = Blank"
  using throughput_recomputed_unless_discarded
    [of sample_ctx "\<lparr>nextBlock = Some 50, logs = Some [Some transfer_log, Some \<lparr>topics = Topics []\<rparr>]\<rparr>" 50
        sample_state]
    throughput_recomputed_unless_discarded
    [of sample_ctx "\<lparr>nextBlock = None, logs = Some [Some transfer_log, Some \<lparr>topics = Topics []\<rparr>]\<rparr>" 50
        sample_state]
  by (simp add: sample_ctx_def sample_state_def transfer_log_def process_batch_def accept_batch_def
      process_logs_def count_log_def name_of_topic_def increment_def counter_def get_prop_def
      updateProgressBar_def log_line_def sample_lines_def seconds_def progress_fraction_def Let_def)

text \<open>
  C9 as stated fails: after a response with two records handled 1 s after the start, a
  response without \<open>nextBlock\<close> handled 5 s after the start leaves the panel at 2
  events per second, computed with 1 s, while \<open>Total\<close> divided by the elapsed time is
  2/5.
\<close>

theorem stale_throughput_counterexample:
  "stats (process_batch sample_ctx \<lparr>nextBlock = None, logs = Some [Some transfer_log]\<rparr> 5000
      (process_batch sample_ctx
         \<lparr>nextBlock = Some 50, logs = Some [Some transfer_log, Some \<lparr>topics = Topics []\<rparr>]\<rparr> 1000
         sample_state))
     = Live 50 (1 / 2) 2 1 2 \<and>
   of_nat (counter (eventCounts (process_batch sample_ctx \<lparr>nextBlock = None, logs = Some [Some transfer_log]\<rparr> 5000
      (process_batch sample_ctx
         \<lparr>nextBlock = Some 50, logs = Some [Some transfer_log, Some \<lparr>topics = Topics []\<rparr>]\<rparr> 1000
         sample_state))) ''Total'') / seconds sample_ctx 5000 = (2 / 5 :: rat)"
  by (simp add: sample_ctx_def sample_state_def transfer_log_def process_batch_def accept_batch_def
      process_logs_def count_log_def name_of_topic_def increment_def counter_def get_prop_def
      updateProgressBar_def log_line_def sample_lines_def seconds_def progress_fraction_def Let_def)

text \<open>
  C3: after every processed batch \<open>Total\<close> should equal the sum of the per-name
  counters, \<open>Unknown\<close> included. The code breaks this for an event whose name is
  \<open>Total\<close>: its counter is the property \<open>Total\<close> itself, so one record of the
  signature \<open>Total(uint256)\<close> raises \<open>Total\<close> to 2 while the other counters sum
  to 0.
\<close>

theorem event_named_Total_counted_twice:
  "eventCounts (createScanner digest [''Total(uint256)''] decoder start (Ready h)
      [(Batch \<lparr>nextBlock = Some 1,
               logs = Some [Some \<lparr>topics = Topics [Some (topic0_of digest ''Total(uint256)'')]\<rparr>]\<rparr>, t)])
   = [(''Total'', 2), (''Unknown'', 0)] \<and>
   counter (eventCounts (createScanner digest [''Total(uint256)''] decoder start (Ready h)
      [(Batch \<lparr>nextBlock = Some 1,
               logs = Some [Some \<lparr>topics = Topics [Some (topic0_of digest ''Total(uint256)'')]\<rparr>]\<rparr>, t)]))
     ''Total'' = 2 \<and>
   per_name_sum (eventCounts (createScanner digest [''Total(uint256)''] decoder start (Ready h)
      [(Batch \<lparr>nextBlock = Some 1,
               logs = Some [Some \<lparr>topics = Topics [Some (topic0_of digest ''Total(uint256)'')]\<rparr>]\<rparr>, t)]))
     = 0"
  by (simp add: createScanner_def Let_def scanner_ctx_def initial_state_def initial_maps_def
      register_signature_def event_name_def topic0_of_def process_batch_def accept_batch_def
      process_logs_def count_log_def name_of_topic_def increment_def counter_def get_prop_def
      updateProgressBar_def log_line_def per_name_sum_def)

lemma per_name_sum_increment:
  "k \<noteq> ''Total'' \<Longrightarrow> per_name_sum (increment k counts) = per_name_sum counts + 1"
  unfolding increment_def counter_def get_prop_def per_name_sum_def
  by (induction counts) auto

lemma per_name_sum_increment_Total:
  "per_name_sum (increment ''Total'' counts) = per_name_sum counts"
  unfolding increment_def counter_def get_prop_def per_name_sum_def
  by (induction counts) auto
lemma name_of_topic_not_Total:
  "''Total'' \<notin> snd ` set names \<Longrightarrow> name_of_topic names topic0 \<noteq> ''Total''"
  by (auto simp: name_of_topic_def get_prop_def split: option.splits dest!: map_of_SomeD intro: rev_image_eqI)

lemma count_log_balanced:
  assumes "balanced counts" "''Total'' \<notin> snd ` set names"
  shows "balanced (count_log names counts entry)"
proof (cases entry)
  case None
  then show ?thesis using assms(1) by (simp add: count_log_def)
next
  case (Some lg)
  have step: "balanced (increment k (increment ''Total'' counts))" if "k \<noteq> ''Total''" for k
    using assms(1) that
    by (simp add: balanced_def counter_increment per_name_sum_increment per_name_sum_increment_Total)
  show ?thesis
  proof (cases "first_topic (topics lg)")
    case None
    then show ?thesis using step [of "''Unknown''"] by (simp add: count_log_def Some)
  next
    case (Some topic0)
    show ?thesis
      using step [of "''Unknown''"] step [OF name_of_topic_not_Total [OF assms(2), of topic0]]
      by (simp add: count_log_def \<open>entry = Some lg\<close> Some Let_def)
  qed
qed

lemma foldl_count_log_balanced:
  "balanced counts \<Longrightarrow> ''Total'' \<notin> snd ` set names \<Longrightarrow>
   balanced (foldl (count_log names) counts entries)"
  by (induction entries arbitrary: counts) (simp_all add: count_log_balanced)

lemma eventCounts_process_logs:
  "eventCounts (process_logs c nb data s) =
     foldl (count_log (topic0ToName c)) (eventCounts s) (case data of None \<Rightarrow> [] | Some entries \<Rightarrow> entries)"
  by (simp add: process_logs_def Let_def split: option.splits)

lemma eventCounts_accept_batch:
  "eventCounts (accept_batch c nb data now s) = eventCounts (process_logs c nb data s)"
  by (simp add: accept_batch_def Let_def updateProgressBar_def log_line_def)

lemma eventCounts_process_batch:
  "eventCounts (process_batch c res t s) =
     foldl (count_log (topic0ToName c)) (eventCounts s)
       (case nextBlock res of
          None \<Rightarrow> []
        | Some nb \<Rightarrow> if nb = 0 then [] else (case logs res of None \<Rightarrow> [] | Some entries \<Rightarrow> entries))"
  by (simp add: process_batch_def eventCounts_accept_batch eventCounts_process_logs log_line_def
      split: option.splits)

lemma streaming_balanced:
  "balanced (eventCounts s) \<Longrightarrow> ''Total'' \<notin> snd ` set (topic0ToName c) \<Longrightarrow>
   balanced (eventCounts (streaming c answers s))"
proof (induction c answers s rule: streaming.induct)
  case (1 c s)
  then show ?case by simp
next
  case (2 c t rest s)
  then show ?case
    by (simp add: final_summary_def updateProgressBar_def log_line_def Let_def)
next
  case (3 c msg t rest s)
  then show ?case by (simp add: fail_def log_line_def)
next
  case (4 c res t rest s)
  have "balanced (eventCounts (process_batch c res t s))"
    unfolding eventCounts_process_batch by (rule foldl_count_log_balanced [OF 4(2,3)])
  then show ?case using 4(1) 4(3) by simp
qed

lemma set_set_prop: "set (set_prop k v obj) \<subseteq> insert (k, v) (set obj)"
  by (induction obj) auto

lemma initial_names_gen:
  "snd ` set (fst (foldl (register_signature digest) maps sigs)) \<subseteq>
   snd ` set (fst maps) \<union> event_name ` set sigs"
proof (induction sigs arbitrary: maps)
  case Nil
  then show ?case by simp
next
  case (Cons sig sigs)
  have "snd ` set (fst (register_signature digest maps sig)) \<subseteq> insert (event_name sig) (snd ` set (fst maps))"
    using set_set_prop [of "topic0_of digest sig" "event_name sig" "fst maps"]
    by (auto simp: register_signature_def)
  with Cons.IH [of "register_signature digest maps sig"]
  have "snd ` set (fst (foldl (register_signature digest) (register_signature digest maps sig) sigs)) \<subseteq>
        insert (event_name sig) (snd ` set (fst maps)) \<union> event_name ` set sigs"
    by blast
  then show ?case by (simp add: Un_commute insert_commute)
qed

lemma initial_names: "snd ` set (fst (initial_maps digest sigs)) \<subseteq> event_name ` set sigs"
  using initial_names_gen [of digest "([], [(''Total'', 0), (''Unknown'', 0)])" sigs]
  by (simp add: initial_maps_def)

lemma zero_counts_counter: "list_all (\<lambda>p. snd p = 0) counts \<Longrightarrow> counter counts k = 0"
  unfolding counter_def get_prop_def by (induction counts) auto

lemma zero_counts_sum: "list_all (\<lambda>p. snd p = 0) counts \<Longrightarrow> per_name_sum counts = 0"
  unfolding per_name_sum_def by (induction counts) auto

lemma zero_counts_balanced: "list_all (\<lambda>p. snd p = 0) counts \<Longrightarrow> balanced counts"
  by (simp add: balanced_def zero_counts_counter zero_counts_sum)

text \<open>
  When no signature has the event name \<open>Total\<close>, the counters stay balanced whatever
  the session delivers.
\<close>

lemma Total_equals_sum_unless_event_named_Total:
  assumes "''Total'' \<notin> event_name ` set sigs"
  shows "counter (eventCounts (createScanner digest sigs decoder start init answers)) ''Total'' =
         per_name_sum (eventCounts (createScanner digest sigs decoder start init answers))"
proof -
  have b0: "balanced (snd (initial_maps digest sigs))"
    by (rule zero_counts_balanced [OF initial_counts_zero])
  have names: "''Total'' \<notin> snd ` set (fst (initial_maps digest sigs))"
    using initial_names [of digest sigs] assms by blast
  have "balanced (eventCounts (createScanner digest sigs decoder start init answers))"
  proof (cases init)
    case (Ready h)
    show ?thesis
      unfolding Ready createScanner_def Let_def init_outcome.case
      by (rule streaming_balanced)
        (simp_all add: b0 names updateProgressBar_def log_line_def initial_state_def scanner_ctx_def)
  qed (simp_all add: createScanner_def Let_def fail_def log_line_def initial_state_def b0)
  then show ?thesis by (simp add: balanced_def)
qed

lemma progress_fraction_le_1: "progress_fraction nb h \<le> 1"
  by (simp add: progress_fraction_def)

lemma progress_fraction_ge_0: "0 \<le> progress_fraction nb h"
  by (simp add: progress_fraction_def)

lemma progress_fraction_mono: "nb \<le> nb' \<Longrightarrow> progress_fraction nb h \<le> progress_fraction nb' h"
  by (auto simp: progress_fraction_def min_def divide_le_cancel not_le intro: divide_right_mono order_trans)

lemma progressBar_accept:
  "progressBar (accept_batch c nb data now s) = progressBar s @ [progress_fraction nb (height c)]"
  by (simp add: accept_batch_def Let_def updateProgressBar_def log_line_def process_logs_def
      split: option.splits)

lemma progressBar_process_batch:
  "progressBar (process_batch c res now s) =
     progressBar s @ (case nextBlock res of None \<Rightarrow> []
                      | Some nb \<Rightarrow> if nb = 0 then [] else [progress_fraction nb (height c)])"
  by (simp add: process_batch_def progressBar_accept log_line_def split: option.splits)

lemma progressBar_bounded:
  "list_all (\<lambda>p. 0 \<le> p \<and> p \<le> 1) (progressBar s) \<Longrightarrow>
   list_all (\<lambda>p. 0 \<le> p \<and> p \<le> 1) (progressBar (streaming c answers s))"
proof (induction c answers s rule: streaming.induct)
  case (1 c s)
  then show ?case by simp
next
  case (2 c t rest s)
  then show ?case
    by (simp add: final_summary_def updateProgressBar_def log_line_def Let_def)
next
  case (3 c msg t rest s)
  then show ?case by (simp add: fail_def log_line_def)
next
  case (4 c res t rest s)
  have "list_all (\<lambda>p. 0 \<le> p \<and> p \<le> 1) (progressBar (process_batch c res t s))"
    using 4(2)
    by (simp add: progressBar_process_batch progress_fraction_le_1 progress_fraction_ge_0
        split: option.splits)
  then show ?case using 4(1) by simp
qed

lemma progressBar_sorted:
  "sorted (accepted_cursors answers) \<Longrightarrow> sorted (progressBar s) \<Longrightarrow>
   list_all (\<lambda>p. p \<le> 1) (progressBar s) \<Longrightarrow>
   (\<forall>p \<in> set (progressBar s). \<forall>nb \<in> set (accepted_cursors answers).
        p \<le> progress_fraction nb (height c)) \<Longrightarrow>
   sorted (progressBar (streaming c answers s))"
proof (induction c answers s rule: streaming.induct)
  case (1 c s)
  then show ?case by simp
next
  case (2 c t rest s)
  then show ?case
    by (auto simp: final_summary_def updateProgressBar_def log_line_def Let_def sorted_append
        list_all_iff)
next
  case (3 c msg t rest s)
  then show ?case by (simp add: fail_def log_line_def)
next
  case (4 c res t rest s)
  show ?case
  proof (cases "nextBlock res = None \<or> nextBlock res = Some 0")
    case True
    then have pb: "progressBar (process_batch c res t s) = progressBar s"
      by (auto simp: progressBar_process_batch)
    have ac: "accepted_cursors ((Batch res, t) # rest) = accepted_cursors rest"
      using True by auto
    show ?thesis
      using 4(1) [OF 4(2) [unfolded ac]] 4(3,4,5) unfolding ac
      by (simp add: pb)
  next
    case False
    then obtain nb where nb: "nextBlock res = Some nb" "nb \<noteq> 0" by auto
    have pb: "progressBar (process_batch c res t s) = progressBar s @ [progress_fraction nb (height c)]"
      using nb by (simp add: progressBar_process_batch)
    have ac: "accepted_cursors ((Batch res, t) # rest) = nb # accepted_cursors rest"
      using nb by simp
    from 4(2) have srt: "sorted (accepted_cursors rest)" and le: "\<forall>x \<in> set (accepted_cursors rest). nb \<le> x"
      unfolding ac by simp_all
    have a: "sorted (progressBar (process_batch c res t s))"
      unfolding pb using 4(3) 4(5) nb by (simp add: sorted_append)
    have b: "list_all (\<lambda>p. p \<le> 1) (progressBar (process_batch c res t s))"
      unfolding pb using 4(4) by (simp add: progress_fraction_le_1)
    have d: "\<forall>p \<in> set (progressBar (process_batch c res t s)). \<forall>x \<in> set (accepted_cursors rest).
               p \<le> progress_fraction x (height c)"
      unfolding pb using 4(5) le nb by (auto simp: progress_fraction_mono)
    show ?thesis using 4(1) [OF srt a b d] by simp
  qed
qed

lemma createScanner_progressBar_cases:
  "progressBar (createScanner digest sigs decoder start init answers) = [] \<or>
   (\<exists>c s. progressBar s = [0] \<and>
      createScanner digest sigs decoder start init answers = streaming c answers s)"
proof (cases init)
  case (Ready h)
  let ?s = "updateProgressBar 0 (log_line StartingStream (log_line DecoderInitialized
             (log_line (StartingScan h) (initial_state digest sigs))))"
  have "progressBar ?s = [0]"
    by (simp add: updateProgressBar_def log_line_def initial_state_def)
  moreover have "createScanner digest sigs decoder start init answers =
      streaming (scanner_ctx digest sigs decoder start h) answers ?s"
    by (simp add: Ready createScanner_def Let_def)
  ultimately show ?thesis by blast
qed (simp_all add: createScanner_def Let_def fail_def log_line_def initial_state_def)

text \<open>
  C5, as the code has it: every value passed to the progress bar lies between 0 and 1,
  and the values are non-decreasing over a scan whenever the cursors of the accepted
  responses are non-decreasing. The code computes each value from the response's own
  \<open>nextBlock\<close> and does not compare it with the previous one.
\<close>

theorem progress_clamped_and_monotone_for_sorted_cursors:
  "list_all (\<lambda>p. 0 \<le> p \<and> p \<le> 1) (progressBar (createScanner digest sigs decoder start init answers)) \<and>
   (sorted (accepted_cursors answers) \<longrightarrow>
      sorted (progressBar (createScanner digest sigs decoder start init answers)))"
proof -
  consider (failed) "progressBar (createScanner digest sigs decoder start init answers) = []"
    | (ready) c s where "progressBar s = [0]"
        "createScanner digest sigs decoder start init answers = streaming c answers s"
    using createScanner_progressBar_cases by blast
  then show ?thesis
  proof cases
    case failed
    then show ?thesis by simp
  next
    case ready
    have "list_all (\<lambda>p. 0 \<le> p \<and> p \<le> 1) (progressBar (streaming c answers s))"
      by (rule progressBar_bounded) (simp add: ready(1))
    moreover have "sorted (progressBar (streaming c answers s))" if "sorted (accepted_cursors answers)"
      by (rule progressBar_sorted [OF that])
        (simp_all add: ready(1) progress_fraction_ge_0)
    ultimately show ?thesis by (simp add: ready(2))
  qed
qed

text \<open>
  An instance of C5's theorem: cursors 40 and 150 at height 100, a discarded response
  in between, then the sentinel; the progress bar shows 0, 2/5, 1, 1.
\<close>

theorem progress_clamped_and_monotone_for_sorted_cursors_witness:
  "sorted (accepted_cursors
     [(Batch \<lparr>nextBlock = Some 40, logs = None\<rparr>, 1), (Batch \<lparr>nextBlock = None, logs = None\<rparr>, 2),
      (Batch \<lparr>nextBlock = Some 150, logs = None\<rparr>, 3), (EndOfStream, 4)]) \<and>
   sorted (progressBar (createScanner sample_digest [] sample_decoder 0 (Ready 100)
     [(Batch \<lparr>nextBlock = Some 40, logs = None\<rparr>, 1), (Batch \<lparr>nextBlock = None, logs = None\<rparr>, 2),
      (Batch \<lparr>nextBlock = Some 150, logs = None\<rparr>, 3), (EndOfStream, 4)])) \<and>
   progressBar (createScanner sample_digest [] sample_decoder 0 (Ready 100)
     [(Batch \<lparr>nextBlock = Some 40, logs = None\<rparr>, 1), (Batch \<lparr>nextBlock = None, logs = None\<rparr>, 2),
      (Batch \<lparr>nextBlock = Some 150, logs = None\<rparr>, 3), (EndOfStream, 4)])
     = [0, 2 / 5, 1, 1]"
  using progress_clamped_and_monotone_for_sorted_cursors
    [of sample_digest "[]" sample_decoder 0 "Ready 100"
      "[(Batch \<lparr>nextBlock = Some 40, logs = None\<rparr>, 1), (Batch \<lparr>nextBlock = None, logs = None\<rparr>, 2),
        (Batch \<lparr>nextBlock = Some 150, logs = None\<rparr>, 3), (EndOfStream, 4)]"]
  by (simp add: createScanner_def Let_def scanner_ctx_def initial_state_def initial_maps_def
      process_batch_def accept_batch_def process_logs_def final_summary_def
      updateProgressBar_def log_line_def progress_fraction_def)

text \<open>
  C5 as stated fails for a session that delivers cursor 50 and then cursor 20 at height
  100: the progress bar shows 1/2 and then 1/5.
\<close>

theorem progress_decreases_counterexample:
  "progressBar (createScanner sample_digest [] sample_decoder 0 (Ready 100)
     [(Batch \<lparr>nextBlock = Some 50, logs = None\<rparr>, 10), (Batch \<lparr>nextBlock = Some 20, logs = None\<rparr>, 20)])
     = [0, 1 / 2, 1 / 5] \<and>
   \<not> sorted [0 :: rat, 1 / 2, 1 / 5]"
proof -
  have shown: "progressBar (createScanner sample_digest [] sample_decoder 0 (Ready 100)
     [(Batch \<lparr>nextBlock = Some 50, logs = None\<rparr>, 10), (Batch \<lparr>nextBlock = Some 20, logs = None\<rparr>, 20)])
     = [0, 1 / 2, 1 / 5]"
    by (simp add: createScanner_def Let_def scanner_ctx_def initial_state_def initial_maps_def
        process_batch_def accept_batch_def process_logs_def
        updateProgressBar_def log_line_def progress_fraction_def)
  have decreasing: "\<not> sorted [0 :: rat, 1 / 2, 1 / 5]"
    by (simp del: sorted_wrt.simps add: sorted2)
  show ?thesis by (rule conjI [OF shown decreasing])
qed

end
